theory Spec2Isabelle
  imports Complex_Main
begin

section \<open>JavaScript values used by the board component\<close>

text \<open>
  A JavaScript number is modelled by an exact rational or one of the three special
  values of IEEE arithmetic. Rounding and the sign of zero are not modelled.
\<close>

datatype jsnum = Fin rat | PInf | NInf | NaN

text \<open>
  The operator \<^verbatim>\<open>/\<close> on numbers: it never raises; a zero divisor gives an infinity
  or \<open>NaN\<close>.
\<close>

fun js_div :: "jsnum \<Rightarrow> jsnum \<Rightarrow> jsnum" where
  "js_div NaN _ = NaN"
| "js_div _ NaN = NaN"
| "js_div (Fin a) (Fin b) =
     (if b = 0 then (if a = 0 then NaN else if 0 < a then PInf else NInf)
      else Fin (a / b))"
| "js_div (Fin a) PInf = Fin 0"
| "js_div (Fin a) NInf = Fin 0"
| "js_div PInf (Fin b) = (if b < 0 then NInf else PInf)"
| "js_div NInf (Fin b) = (if b < 0 then PInf else NInf)"
| "js_div PInf PInf = NaN"
| "js_div PInf NInf = NaN"
| "js_div NInf PInf = NaN"
| "js_div NInf NInf = NaN"

text \<open>
  A property that may be absent reads as \<^verbatim>\<open>undefined\<close>; as the right operand of
  \<^verbatim>\<open>/\<close> it is converted to \<open>NaN\<close>. \<open>None\<close> stands for the absent property.
\<close>

fun js_div_prop :: "jsnum \<Rightarrow> jsnum option \<Rightarrow> jsnum" where
  "js_div_prop a None = NaN"
| "js_div_prop a (Some b) = js_div a b"

section \<open>Props, game state and the component\<close>

text \<open>
  \<^verbatim>\<open>gameState.board\<close> with its two dimensions. A snapshot that lacks a dimension has
  \<open>None\<close> there; a snapshot that lacks the board object has \<open>board = None\<close>.
\<close>

record BoardDims =
  board_width :: "jsnum option"
  board_height :: "jsnum option"

record GameState =
  board :: "BoardDims option"

text \<open>
  \<^verbatim>\<open>IProps\<close>. \<^verbatim>\<open>inverted\<close> and \<^verbatim>\<open>playerNum\<close> may be \<^verbatim>\<open>null\<close>, which is \<open>None\<close>.
  Player numbers are integers. The callback \<^verbatim>\<open>requestMove\<close> is left out: the
  methods modelled below do not call it.
\<close>

record IProps =
  width :: jsnum
  height :: jsnum
  gameState :: GameState
  inverted :: "bool option"
  playerNum :: "int option"

text \<open>
  Placement of an object on the canvas: the coordinates given at construction, or the
  centre of the canvas after \<^verbatim>\<open>center()\<close>.
\<close>

datatype placement = At jsnum jsnum | Centered

text \<open>A \<^verbatim>\<open>fabric.Text\<close>: its string, where it sits and its fill colour.\<close>

record Text =
  text_content :: string
  text_place :: placement
  text_fill :: string

text \<open>
  The \<^verbatim>\<open>fabric.Canvas\<close>, by the attributes the component touches. \<open>handlers\<close> lists
  the event handlers registered with \<^verbatim>\<open>on\<close>, each by its event name and the opacity
  it gives the event's target. \<open>objects\<close> holds what the component itself adds with
  \<^verbatim>\<open>add\<close>; the tiles and pieces that \<^verbatim>\<open>Board\<close> and \<^verbatim>\<open>PieceHandler\<close> draw are part of
  their own static state (\<open>statics\<close> below).
\<close>

record Canvas =
  element :: string
  preserveObjectStacking :: bool
  canvas_height :: jsnum
  canvas_width :: jsnum
  selection :: bool
  handlers :: "(string \<times> rat) list"
  objects :: "Text list"

text \<open>
  \<^verbatim>\<open>new fabric.Canvas(id)\<close>: object stacking is not preserved, group selection is on,
  and the size is that of a canvas element without size attributes.
\<close>

definition new_Canvas :: "string \<Rightarrow> Canvas" where
  "new_Canvas el =
     \<lparr>element = el, preserveObjectStacking = False,
      canvas_height = Fin 150, canvas_width = Fin 300,
      selection = True, handlers = [], objects = []\<rparr>"

definition setHeight :: "jsnum \<Rightarrow> Canvas \<Rightarrow> Canvas" where
  "setHeight v c = c\<lparr>canvas_height := v\<rparr>"

definition setWidth :: "jsnum \<Rightarrow> Canvas \<Rightarrow> Canvas" where
  "setWidth v c = c\<lparr>canvas_width := v\<rparr>"

definition getHeight :: "Canvas \<Rightarrow> jsnum" where
  "getHeight c = canvas_height c"

definition getWidth :: "Canvas \<Rightarrow> jsnum" where
  "getWidth c = canvas_width c"

definition on :: "(string \<times> rat) list \<Rightarrow> Canvas \<Rightarrow> Canvas" where
  "on hs c = c\<lparr>handlers := handlers c @ hs\<rparr>"

definition add :: "Text \<Rightarrow> Canvas \<Rightarrow> Canvas" where
  "add t c = c\<lparr>objects := objects c @ [t]\<rparr>"

text \<open>
  The fields of \<^verbatim>\<open>ChessGame\<close>, and \<open>statics\<close>: the static state of the classes
  \<^verbatim>\<open>Board\<close> and \<^verbatim>\<open>PieceHandler\<close>, which outlives the method calls. The two maps send
  a key to a fabric object of type \<open>'o\<close>.
\<close>

record ('o, 'w) ChessGame =
  tileMap :: "string \<rightharpoonup> 'o"
  pieceMap :: "string \<rightharpoonup> 'o"
  tileWidth :: jsnum
  tileHeight :: jsnum
  canvas :: "Canvas option"
  statics :: 'w

definition new_ChessGame :: "'w \<Rightarrow> ('o, 'w) ChessGame" where
  "new_ChessGame w =
     \<lparr>tileMap = Map.empty, pieceMap = Map.empty,
      tileWidth = Fin 0, tileHeight = Fin 0, canvas = None, statics = w\<rparr>"

text \<open>
  The static methods of \<^verbatim>\<open>Board\<close> and \<^verbatim>\<open>PieceHandler\<close> that the component calls.
  Their code is in other files, so they are parameters: each acts on the static state
  \<open>'w\<close>, and the two loaders also return the map the component stores. The component
  passes itself to \<^verbatim>\<open>loadPieces\<close>; that argument is not modelled.
\<close>

record ('o, 'w, 'p) Collaborators =
  Board_init :: "Canvas \<Rightarrow> jsnum \<Rightarrow> jsnum \<Rightarrow> 'w \<Rightarrow> 'w"
  Board_deleteAll :: "'w \<Rightarrow> 'w"
  Board_loadBoard :: "bool \<Rightarrow> GameState \<Rightarrow> 'w \<Rightarrow> (string \<rightharpoonup> 'o) \<times> 'w"
  PieceHandler_init :: "Canvas \<Rightarrow> jsnum \<Rightarrow> jsnum \<Rightarrow> 'w \<Rightarrow> 'w"
  PieceHandler_deleteAllPieces :: "'w \<Rightarrow> 'w"
  PieceHandler_loadPieces :: "int \<Rightarrow> bool \<Rightarrow> GameState \<Rightarrow> 'w \<Rightarrow> (string \<rightharpoonup> 'o) \<times> 'w"
  PieceHandler_deletePiece :: "'p \<Rightarrow> 'w \<Rightarrow> 'w"
  PieceHandler_lockAllPieces :: "'w \<Rightarrow> 'w"
  PieceHandler_unlockPieces :: "int \<Rightarrow> 'w \<Rightarrow> 'w"

section \<open>The methods of ChessGame\<close>

text \<open>
  \<^verbatim>\<open>componentDidUpdate\<close>: the rebuild runs when neither \<^verbatim>\<open>playerNum\<close> nor
  \<^verbatim>\<open>inverted\<close> is null and \<^verbatim>\<open>inverted\<close> differs from the previous props.
\<close>

definition componentDidUpdate ::
  "('o, 'w, 'p) Collaborators \<Rightarrow> IProps \<Rightarrow> IProps \<Rightarrow> ('o, 'w) ChessGame \<Rightarrow> ('o, 'w) ChessGame"
where
  "componentDidUpdate E props prevProps this =
     (case playerNum props of
        None \<Rightarrow> this
      | Some p \<Rightarrow>
          (case inverted props of
             None \<Rightarrow> this
           | Some i \<Rightarrow>
               if inverted props \<noteq> inverted prevProps then
                 let w1 = PieceHandler_deleteAllPieces E (statics this);
                     w2 = Board_deleteAll E w1;
                     (tm, w3) = Board_loadBoard E i (gameState props) w2;
                     (pm, w4) = PieceHandler_loadPieces E p i (gameState props) w3
                 in this\<lparr>tileMap := tm, pieceMap := pm, statics := w4\<rparr>
               else this))"

text \<open>\<^verbatim>\<open>deletePiece\<close>, \<^verbatim>\<open>lockAllPieces\<close> and \<^verbatim>\<open>unlockPieces\<close> delegate.\<close>

definition deletePiece ::
  "('o, 'w, 'p) Collaborators \<Rightarrow> 'p \<Rightarrow> ('o, 'w) ChessGame \<Rightarrow> ('o, 'w) ChessGame"
where
  "deletePiece E piece this = this\<lparr>statics := PieceHandler_deletePiece E piece (statics this)\<rparr>"

definition lockAllPieces ::
  "('o, 'w, 'p) Collaborators \<Rightarrow> int \<Rightarrow> ('o, 'w) ChessGame \<Rightarrow> ('o, 'w) ChessGame"
where
  "lockAllPieces E playerNum' this = this\<lparr>statics := PieceHandler_lockAllPieces E (statics this)\<rparr>"

definition unlockPieces ::
  "('o, 'w, 'p) Collaborators \<Rightarrow> int \<Rightarrow> ('o, 'w) ChessGame \<Rightarrow> ('o, 'w) ChessGame"
where
  "unlockPieces E playerNum' this =
     this\<lparr>statics := PieceHandler_unlockPieces E playerNum' (statics this)\<rparr>"

text \<open>
  A read of a property of \<^verbatim>\<open>undefined\<close> raises a \<^verbatim>\<open>TypeError\<close>. A method that
  raises returns \<open>Inl\<close> with the error and the state reached when it was raised.
\<close>

datatype error = TypeError

text \<open>
  \<^verbatim>\<open>componentDidMount\<close>: creates and configures the canvas, then divides the canvas
  size by the board size and hands the canvas and the tile size to \<^verbatim>\<open>Board.init\<close> and
  \<^verbatim>\<open>PieceHandler.init\<close>. \<^verbatim>\<open>this.canvas\<close> refers to the canvas object that the later
  statements configure, so it holds the configured canvas. The only statement that can
  raise is the read of \<^verbatim>\<open>board.width\<close> when the snapshot has no board object.
\<close>

definition componentDidMount ::
  "('o, 'w, 'p) Collaborators \<Rightarrow> IProps \<Rightarrow> ('o, 'w) ChessGame
     \<Rightarrow> (error \<times> ('o, 'w) ChessGame) + ('o, 'w) ChessGame"
where
  "componentDidMount E props this =
     (let c0 = new_Canvas ''myCanvas'';
          c1 = c0\<lparr>preserveObjectStacking := True\<rparr>;
          c2 = setHeight (height props) c1;
          c3 = setWidth (width props) c2;
          c4 = c3\<lparr>selection := False\<rparr>;
          c = on [(''object:moving'', 6 / 10), (''object:modified'', 1)] c4;
          this1 = this\<lparr>canvas := Some c\<rparr>
      in case board (gameState props) of
           None \<Rightarrow> Inl (TypeError, this1)
         | Some b \<Rightarrow>
             (let tw = js_div_prop (getWidth c) (board_width b);
                  th = js_div_prop (getHeight c) (board_height b);
                  w1 = Board_init E c tw th (statics this1);
                  w2 = PieceHandler_init E c tw th w1
              in Inr (this1\<lparr>tileWidth := tw, tileHeight := th, statics := w2\<rparr>)))"

text \<open>The state a method call leaves behind, whether it raised or returned.\<close>

fun state_after :: "(error \<times> 's) + 's \<Rightarrow> 's" where
  "state_after (Inl (e, s)) = s"
| "state_after (Inr s) = s"

text \<open>
  The string of an integer, as \<^verbatim>\<open>+\<close> with a string operand produces it: decimal
  digits, with a minus sign for a negative number.
\<close>

fun string_of_nat :: "nat \<Rightarrow> string" where
  "string_of_nat n =
     (if n < 10 then [''0123456789'' ! n]
      else string_of_nat (n div 10) @ [''0123456789'' ! (n mod 10)])"

declare string_of_nat.simps [simp del]

definition toString :: "int \<Rightarrow> string" where
  "toString n = (if n < 0 then CHR ''-'' # string_of_nat (nat (- n)) else string_of_nat (nat n))"

text \<open>\<^verbatim>\<open>center()\<close> moves an object to the centre of its canvas.\<close>

definition center :: "Text \<Rightarrow> Text" where
  "center t = t\<lparr>text_place := Centered\<rparr>"

text \<open>
  \<^verbatim>\<open>displayWinner\<close>: nothing without a canvas; with one, a new text object is added
  to the canvas and centred. The object is centred after it is added; the canvas holds
  a reference to it, so the object on the canvas is the centred one. \<^verbatim>\<open>renderAll\<close>
  draws the objects and changes none.
\<close>

definition displayWinner :: "int \<Rightarrow> ('o, 'w) ChessGame \<Rightarrow> ('o, 'w) ChessGame" where
  "displayWinner playerNum' this =
     (case canvas this of
        None \<Rightarrow> this
      | Some c \<Rightarrow>
          (let text = \<lparr>text_content = toString playerNum' @ '' wins!'',
                       text_place = At (Fin 0) (Fin 0), text_fill = ''black''\<rparr>
           in this\<lparr>canvas := Some (add (center text) c)\<rparr>))"

section \<open>The store bindings of the Svelte board\<close>

text \<open>
  A property of a JavaScript object: not there, \<^verbatim>\<open>null\<close>, or a value.
\<close>

datatype 'a property = Absent | Null | Val 'a

text \<open>
  The object \<^verbatim>\<open>highlighted\<close> that the page passes to its board: the kings in check,
  the legal moves of the selected piece and the last turn played.
\<close>

record ('k, 'm, 't) highlighted =
  in_check_kings :: "'k property"
  possibleMoves :: "'m property"
  lastTurn :: "'t property"

text \<open>The initial value \<^verbatim>\<open>{}\<close>.\<close>

definition highlighted_init :: "('k, 'm, 't) highlighted" where
  "highlighted_init = \<lparr>in_check_kings = Absent, possibleMoves = Absent, lastTurn = Absent\<rparr>"

text \<open>The two properties of a \<^verbatim>\<open>GameInfo\<close> value that its subscriber reads.\<close>

record ('k, 't) GameInfo =
  info_in_check_kings :: "'k property"
  last_turn :: "'t property"

text \<open>
  The function subscribed to \<^verbatim>\<open>MovesFrom\<close>: it sets \<^verbatim>\<open>lastTurn\<close> to null and
  \<^verbatim>\<open>possibleMoves\<close> to the value received.
\<close>

definition MovesFrom_subscriber ::
  "'m property \<Rightarrow> ('k, 'm, 't) highlighted \<Rightarrow> ('k, 'm, 't) highlighted"
where
  "MovesFrom_subscriber e h = (h\<lparr>lastTurn := Null\<rparr>)\<lparr>possibleMoves := e\<rparr>"

text \<open>
  The function subscribed to \<^verbatim>\<open>GameInfo\<close> (``reset highlighting whenever the gamestate
  updates''): it replaces the object by a new one with no possible moves.
\<close>

definition GameInfo_subscriber ::
  "('k, 't) GameInfo \<Rightarrow> ('k, 'm, 't) highlighted \<Rightarrow> ('k, 'm, 't) highlighted"
where
  "GameInfo_subscriber v h =
     \<lparr>in_check_kings = info_in_check_kings v, possibleMoves = Null, lastTurn = last_turn v\<rparr>"

section \<open>The coordinate mapping\<close>

text \<open>Subtraction and multiplication of numbers; neither raises.\<close>

fun js_sub :: "jsnum \<Rightarrow> jsnum \<Rightarrow> jsnum" where
  "js_sub NaN _ = NaN"
| "js_sub _ NaN = NaN"
| "js_sub (Fin a) (Fin b) = Fin (a - b)"
| "js_sub (Fin a) PInf = NInf"
| "js_sub (Fin a) NInf = PInf"
| "js_sub PInf (Fin b) = PInf"
| "js_sub PInf NInf = PInf"
| "js_sub PInf PInf = NaN"
| "js_sub NInf (Fin b) = NInf"
| "js_sub NInf PInf = NInf"
| "js_sub NInf NInf = NaN"

fun js_mul :: "jsnum \<Rightarrow> jsnum \<Rightarrow> jsnum" where
  "js_mul NaN _ = NaN"
| "js_mul _ NaN = NaN"
| "js_mul (Fin a) (Fin b) = Fin (a * b)"
| "js_mul (Fin a) PInf = (if a = 0 then NaN else if 0 < a then PInf else NInf)"
| "js_mul (Fin a) NInf = (if a = 0 then NaN else if 0 < a then NInf else PInf)"
| "js_mul PInf (Fin b) = (if b = 0 then NaN else if 0 < b then PInf else NInf)"
| "js_mul NInf (Fin b) = (if b = 0 then NaN else if 0 < b then NInf else PInf)"
| "js_mul PInf PInf = PInf"
| "js_mul PInf NInf = NInf"
| "js_mul NInf PInf = NInf"
| "js_mul NInf NInf = PInf"

text \<open>
  What the mapping reads: the tile size computed at initialization and the board's
  dimensions in tiles. A state that holds more than these four fields is an extension
  of this record.
\<close>

record Geometry =
  geo_tileWidth :: jsnum
  geo_tileHeight :: jsnum
  geo_width :: jsnum
  geo_height :: jsnum

text \<open>
  Modelled from the spec: the forward mapping of \<^verbatim>\<open>Board\<close>, whose code is not among
  the sources. The spec: ``a pure function \<^verbatim>\<open>toScreen(inverted, x, y) -> (left, top)\<close>
  [...] where inversion means screen rows/columns run in reverse order relative to
  logical coordinates, and scaling uses the precomputed tile width/height''; on an 8 by
  8 board with tiles of 100 the square (0, 0) is at (0, 0), and at (700, 700) when
  inverted.
\<close>

definition toScreen :: "'a Geometry_scheme \<Rightarrow> bool \<Rightarrow> jsnum \<Rightarrow> jsnum \<Rightarrow> jsnum \<times> jsnum" where
  "toScreen g inverted' x y =
     (if inverted'
      then (js_mul (js_sub (js_sub (geo_width g) (Fin 1)) x) (geo_tileWidth g),
            js_mul (js_sub (js_sub (geo_height g) (Fin 1)) y) (geo_tileHeight g))
      else (js_mul x (geo_tileWidth g), js_mul y (geo_tileHeight g)))"

text \<open>
  Modelled from the spec: \<^verbatim>\<open>Board.fabricPosToXY\<close>, whose code is not among the
  sources; the spec calls it \<^verbatim>\<open>toLogical(inverted, left, top) -> (x, y)\<close>, the inverse
  of \<^verbatim>\<open>toScreen\<close>, with the same reversal and the same scaling.
\<close>

definition toLogical :: "'a Geometry_scheme \<Rightarrow> bool \<Rightarrow> jsnum \<Rightarrow> jsnum \<Rightarrow> jsnum \<times> jsnum" where
  "toLogical g inverted' left' top' =
     (if inverted'
      then (js_sub (js_sub (geo_width g) (Fin 1)) (js_div left' (geo_tileWidth g)),
            js_sub (js_sub (geo_height g) (Fin 1)) (js_div top' (geo_tileHeight g)))
      else (js_div left' (geo_tileWidth g), js_div top' (geo_tileHeight g)))"

section \<open>The piece handler\<close>

text \<open>The argument of \<^verbatim>\<open>deletePiece\<close>: a piece with its id and its location.\<close>

record Piece =
  piece_id :: string
  piece_location :: "jsnum \<times> jsnum"

text \<open>
  The static state of \<^verbatim>\<open>PieceHandler\<close>: \<^verbatim>\<open>PieceHandler.pieceMap\<close>, from a piece id to
  the piece's visual object, and the objects the handler has on the rendering surface.
\<close>

record 'o PieceHandler =
  PieceHandler_pieceMap :: "string \<rightharpoonup> 'o"
  PieceHandler_drawn :: "'o list"

text \<open>
  Modelled from the spec: \<^verbatim>\<open>PieceHandler.deletePiece\<close>, whose code is not among the
  sources. The spec: ``removes the PieceRecord and its visual representation; no-op
  (not an error) if the id is already absent''.
\<close>

definition PieceHandler_deletePiece_model :: "Piece \<Rightarrow> 'o PieceHandler \<Rightarrow> 'o PieceHandler" where
  "PieceHandler_deletePiece_model piece h =
     (case PieceHandler_pieceMap h (piece_id piece) of
        None \<Rightarrow> h
      | Some g \<Rightarrow>
          h\<lparr>PieceHandler_pieceMap := (PieceHandler_pieceMap h)(piece_id piece := None),
            PieceHandler_drawn := removeAll g (PieceHandler_drawn h)\<rparr>)"

section \<open>Collaborators that record their calls\<close>

text \<open>
  For concrete runs: a \<^verbatim>\<open>Board\<close> and a \<^verbatim>\<open>PieceHandler\<close> whose static state is the
  list of the calls received so far, and whose loaders return empty maps.
\<close>

datatype call =
    BoardInit Canvas jsnum jsnum
  | BoardDeleteAll
  | BoardLoadBoard bool GameState
  | PieceHandlerInit Canvas jsnum jsnum
  | PieceHandlerDeleteAllPieces
  | PieceHandlerLoadPieces int bool GameState
  | PieceHandlerDeletePiece string
  | PieceHandlerLockAllPieces
  | PieceHandlerUnlockPieces int

definition recording :: "(unit, call list, string) Collaborators" where
  "recording =
     \<lparr>Board_init = (\<lambda>c tw th w. w @ [BoardInit c tw th]),
      Board_deleteAll = (\<lambda>w. w @ [BoardDeleteAll]),
      Board_loadBoard = (\<lambda>i g w. (Map.empty, w @ [BoardLoadBoard i g])),
      PieceHandler_init = (\<lambda>c tw th w. w @ [PieceHandlerInit c tw th]),
      PieceHandler_deleteAllPieces = (\<lambda>w. w @ [PieceHandlerDeleteAllPieces]),
      PieceHandler_loadPieces = (\<lambda>p i g w. (Map.empty, w @ [PieceHandlerLoadPieces p i g])),
      PieceHandler_deletePiece = (\<lambda>p w. w @ [PieceHandlerDeletePiece p]),
      PieceHandler_lockAllPieces = (\<lambda>w. w @ [PieceHandlerLockAllPieces]),
      PieceHandler_unlockPieces = (\<lambda>p w. w @ [PieceHandlerUnlockPieces p])\<rparr>"

definition board8 :: GameState where
  "board8 = \<lparr>board = Some \<lparr>board_width = Some (Fin 8), board_height = Some (Fin 8)\<rparr>\<rparr>"

definition props800 :: "bool option \<Rightarrow> int option \<Rightarrow> IProps" where
  "props800 i p =
     \<lparr>width = Fin 800, height = Fin 800, gameState = board8, inverted = i, playerNum = p\<rparr>"

text \<open>A snapshot whose board has a height and no width.\<close>

definition no_width :: IProps where
  "no_width =
     \<lparr>width = Fin 800, height = Fin 800,
      gameState = \<lparr>board = Some \<lparr>board_width = None, board_height = Some (Fin 8)\<rparr>\<rparr>,
      inverted = Some False, playerNum = Some 0\<rparr>"

text \<open>The canvas that \<^verbatim>\<open>componentDidMount\<close> sets up for an 800 by 800 component.\<close>

definition canvas800 :: Canvas where
  "canvas800 =
     \<lparr>element = ''myCanvas'', preserveObjectStacking = True,
      canvas_height = Fin 800, canvas_width = Fin 800, selection = False,
      handlers = [(''object:moving'', 6 / 10), (''object:modified'', 1)], objects = []\<rparr>"

text \<open>A mounted component with nothing on its canvas yet.\<close>

definition mounted :: "(unit, call list) ChessGame" where
  "mounted =
     \<lparr>tileMap = Map.empty, pieceMap = Map.empty, tileWidth = Fin 100, tileHeight = Fin 100,
      canvas = Some canvas800, statics = []\<rparr>"

text \<open>A last turn from (4, 1) to (4, 3) on display, and no legal moves shown.\<close>

definition after_turn :: "(nat \<times> nat, (nat \<times> nat) list, (nat \<times> nat) \<times> (nat \<times> nat)) highlighted" where
  "after_turn =
     \<lparr>in_check_kings = Null, possibleMoves = Null, lastTurn = Val ((4, 1), (4, 3))\<rparr>"

text \<open>The legal moves of a selected piece on display, and no last turn.\<close>

definition previewing :: "(nat \<times> nat, (nat \<times> nat) list, (nat \<times> nat) \<times> (nat \<times> nat)) highlighted" where
  "previewing =
     \<lparr>in_check_kings = Null, possibleMoves = Val [(2, 2), (2, 3)], lastTurn = Null\<rparr>"

text \<open>Collaborators that do nothing and load empty maps.\<close>

definition idle :: "('o, 'w, 'p) Collaborators" where
  "idle =
     \<lparr>Board_init = (\<lambda>c tw th w. w),
      Board_deleteAll = (\<lambda>w. w),
      Board_loadBoard = (\<lambda>i g w. (Map.empty, w)),
      PieceHandler_init = (\<lambda>c tw th w. w),
      PieceHandler_deleteAllPieces = (\<lambda>w. w),
      PieceHandler_loadPieces = (\<lambda>p i g w. (Map.empty, w)),
      PieceHandler_deletePiece = (\<lambda>p w. w),
      PieceHandler_lockAllPieces = (\<lambda>w. w),
      PieceHandler_unlockPieces = (\<lambda>p w. w)\<rparr>"

text \<open>A board of 8 by 8 tiles of 100 by 100.\<close>

definition geometry8 :: Geometry where
  "geometry8 =
     \<lparr>geo_tileWidth = Fin 100, geo_tileHeight = Fin 100, geo_width = Fin 8, geo_height = Fin 8\<rparr>"

text \<open>A handler with one piece, \<open>p1\<close>, whose visual object is number 7.\<close>

definition one_piece :: "(unit, nat PieceHandler) ChessGame" where
  "one_piece =
     new_ChessGame \<lparr>PieceHandler_pieceMap = [''p1'' \<mapsto> 7], PieceHandler_drawn = [7]\<rparr>"

section \<open>Locking\<close>

text \<open>
  C9. The state after \<^verbatim>\<open>lockAllPieces\<close> does not depend on its argument: for any two
  player numbers, any collaborators and any starting state the results are equal.
\<close>

theorem lockAllPieces_ignores_playerNum:
  "lockAllPieces E p this = lockAllPieces E q this"
  by (simp add: lockAllPieces_def)

section \<open>Orientation changes\<close>

text \<open>
  C10. When \<^verbatim>\<open>playerNum\<close> or \<^verbatim>\<open>inverted\<close> is null, \<^verbatim>\<open>componentDidUpdate\<close> changes
  nothing, also when \<^verbatim>\<open>inverted\<close> differs from the previous props: the tile map, the
  piece map and the collaborators' state stay as they were.
\<close>

theorem componentDidUpdate_null_no_rebuild:
  assumes "playerNum props = None \<or> inverted props = None"
  shows "tileMap (componentDidUpdate E props prevProps this) = tileMap this
       \<and> pieceMap (componentDidUpdate E props prevProps this) = pieceMap this
       \<and> componentDidUpdate E props prevProps this = this"
  using assms by (auto simp: componentDidUpdate_def split: option.splits)

theorem componentDidUpdate_null_no_rebuild_witness:
  "(playerNum (props800 None (Some 1)) = None \<or> inverted (props800 None (Some 1)) = None)
   \<and> inverted (props800 None (Some 1)) \<noteq> inverted (props800 (Some True) (Some 1))
   \<and> componentDidUpdate recording (props800 None (Some 1)) (props800 (Some True) (Some 1))
        (new_ChessGame []) = new_ChessGame []"
proof -
  have h: "playerNum (props800 None (Some 1)) = None \<or> inverted (props800 None (Some 1)) = None"
    by (simp add: props800_def)
  show ?thesis
    using h componentDidUpdate_null_no_rebuild [OF h, of recording "props800 (Some True) (Some 1)" "new_ChessGame []"]
    by (simp add: props800_def)
qed

text \<open>
  C3. An orientation change takes effect only when \<^verbatim>\<open>inverted\<close> differs from the
  previous value: with an equal value the whole state, the piece map included, is
  unchanged. When it takes effect (no null among \<^verbatim>\<open>playerNum\<close> and \<^verbatim>\<open>inverted\<close>), all
  pieces and all tiles are deleted first, then the board and the pieces are loaded from
  the game state, and the component stores the two maps returned.
\<close>

theorem componentDidUpdate_orientation:
  "(inverted props = inverted prevProps \<longrightarrow>
      componentDidUpdate E props prevProps this = this
      \<and> pieceMap (componentDidUpdate E props prevProps this) = pieceMap this)
   \<and> (componentDidUpdate E props prevProps this \<noteq> this \<longrightarrow>
      inverted props \<noteq> inverted prevProps)
   \<and> (playerNum props = Some p \<and> inverted props = Some i
        \<and> inverted props \<noteq> inverted prevProps \<longrightarrow>
      componentDidUpdate E props prevProps this =
        (let torn = Board_deleteAll E (PieceHandler_deleteAllPieces E (statics this));
             tiles = Board_loadBoard E i (gameState props) torn;
             pieces = PieceHandler_loadPieces E p i (gameState props) (snd tiles)
         in this\<lparr>tileMap := fst tiles, pieceMap := fst pieces, statics := snd pieces\<rparr>))"
  by (auto simp: componentDidUpdate_def Let_def split: option.splits prod.splits)

theorem componentDidUpdate_orientation_witness:
  "componentDidUpdate recording (props800 (Some True) (Some 0)) (props800 (Some True) (Some 0))
      (new_ChessGame []) = new_ChessGame []
   \<and> statics (componentDidUpdate recording (props800 (Some True) (Some 0))
        (props800 (Some False) (Some 0)) (new_ChessGame []))
     = [PieceHandlerDeleteAllPieces, BoardDeleteAll, BoardLoadBoard True board8,
        PieceHandlerLoadPieces 0 True board8]"
  using componentDidUpdate_orientation
          [of "props800 (Some True) (Some 0)" "props800 (Some True) (Some 0)" recording
              "new_ChessGame []" 0 True]
        componentDidUpdate_orientation
          [of "props800 (Some True) (Some 0)" "props800 (Some False) (Some 0)" recording
              "new_ChessGame []" 0 True]
  by (simp add: props800_def recording_def new_ChessGame_def)

section \<open>Initialization\<close>

text \<open>
  C6. With a board that has both dimensions, \<^verbatim>\<open>componentDidMount\<close> returns; the canvas
  has the size given in the props, and the tile width is the canvas width divided by the
  board width, the tile height the canvas height divided by the board height. For an
  8 by 8 board on an 800 by 800 canvas the tile is 100 by 100.
\<close>

theorem componentDidMount_tile_size:
  "(\<exists>s c. componentDidMount E
             \<lparr>width = w, height = h,
              gameState = \<lparr>board = Some \<lparr>board_width = Some bw, board_height = Some bh\<rparr>\<rparr>,
              inverted = i, playerNum = p\<rparr> this = Inr s
          \<and> canvas s = Some c \<and> getWidth c = w \<and> getHeight c = h
          \<and> tileWidth s = js_div (getWidth c) bw
          \<and> tileHeight s = js_div (getHeight c) bh)
   \<and> tileWidth (state_after (componentDidMount E (props800 i p) this)) = Fin 100
   \<and> tileHeight (state_after (componentDidMount E (props800 i p) this)) = Fin 100"
  by (simp add: componentDidMount_def Let_def props800_def board8_def new_Canvas_def
        setHeight_def setWidth_def getHeight_def getWidth_def on_def)

text \<open>
  C4, as the code has it. A snapshot with a board object that lacks its width or its
  height makes \<^verbatim>\<open>componentDidMount\<close> raise nothing: the tile dimension is \<open>NaN\<close>, and
  \<^verbatim>\<open>Board.init\<close> and \<^verbatim>\<open>PieceHandler.init\<close> are called with it. Only a snapshot
  without the board object raises (a \<^verbatim>\<open>TypeError\<close>), before a tile size is computed
  and before the collaborators are called.
\<close>

theorem componentDidMount_missing_dimension:
  "(board (gameState props) = Some b \<longrightarrow>
      (\<exists>s c. componentDidMount E props this = Inr s \<and> canvas s = Some c
         \<and> (board_width b = None \<longrightarrow> tileWidth s = NaN)
         \<and> (board_height b = None \<longrightarrow> tileHeight s = NaN)
         \<and> statics s =
             PieceHandler_init E c (tileWidth s) (tileHeight s)
               (Board_init E c (tileWidth s) (tileHeight s) (statics this))))
   \<and> (board (gameState props) = None \<longrightarrow>
      (\<exists>s. componentDidMount E props this = Inl (TypeError, s)
         \<and> tileWidth s = tileWidth this \<and> tileHeight s = tileHeight this
         \<and> statics s = statics this))"
  by (simp add: componentDidMount_def Let_def)

theorem componentDidMount_missing_dimension_witness:
  "board (gameState no_width) = Some \<lparr>board_width = None, board_height = Some (Fin 8)\<rparr>
   \<and> tileWidth (state_after (componentDidMount recording no_width (new_ChessGame []))) = NaN
   \<and> board (gameState (no_width\<lparr>gameState := \<lparr>board = None\<rparr>\<rparr>)) = None
   \<and> isl (componentDidMount recording (no_width\<lparr>gameState := \<lparr>board = None\<rparr>\<rparr>)
             (new_ChessGame []))"
  using componentDidMount_missing_dimension
          [of no_width "\<lparr>board_width = None, board_height = Some (Fin 8)\<rparr>" recording
              "new_ChessGame []"]
        componentDidMount_missing_dimension
          [of "no_width\<lparr>gameState := \<lparr>board = None\<rparr>\<rparr>" undefined recording "new_ChessGame []"]
  by (auto simp: no_width_def)

text \<open>
  C4 as stated fails: with the width missing, \<^verbatim>\<open>componentDidMount\<close> returns without
  an error, the tile width is \<open>NaN\<close>, and both collaborators are initialised with it.
\<close>

theorem componentDidMount_no_fail_fast:
  "\<not> isl (componentDidMount recording no_width (new_ChessGame []))
   \<and> tileWidth (state_after (componentDidMount recording no_width (new_ChessGame []))) = NaN
   \<and> statics (state_after (componentDidMount recording no_width (new_ChessGame [])))
     = [BoardInit canvas800 NaN (Fin 100), PieceHandlerInit canvas800 NaN (Fin 100)]"
  by (simp add: componentDidMount_def Let_def no_width_def recording_def new_ChessGame_def
        new_Canvas_def setHeight_def setWidth_def getHeight_def getWidth_def on_def
        canvas800_def)

section \<open>The winner overlay\<close>

text \<open>
  C8, as the code has it. Without a canvas \<^verbatim>\<open>displayWinner\<close> changes nothing. With a
  canvas every call adds one more centred text object: after two calls with the same
  player number the canvas holds two such objects where one call leaves one.
\<close>

theorem displayWinner_adds_text:
  "(canvas this = None \<longrightarrow> displayWinner n this = this)
   \<and> (canvas this = Some c \<longrightarrow>
        canvas (displayWinner n this) =
          Some (c\<lparr>objects := objects c @
            [\<lparr>text_content = toString n @ '' wins!'', text_place = Centered,
              text_fill = ''black''\<rparr>]\<rparr>)
      \<and> canvas (displayWinner n (displayWinner n this)) =
          Some (c\<lparr>objects := objects c @
            [\<lparr>text_content = toString n @ '' wins!'', text_place = Centered,
              text_fill = ''black''\<rparr>,
             \<lparr>text_content = toString n @ '' wins!'', text_place = Centered,
              text_fill = ''black''\<rparr>]\<rparr>))"
  by (simp add: displayWinner_def Let_def add_def center_def)

theorem displayWinner_adds_text_witness:
  "displayWinner 1 (new_ChessGame []) = (new_ChessGame [] :: (unit, call list) ChessGame)
   \<and> canvas (displayWinner 1 mounted) =
       Some (canvas800\<lparr>objects :=
         [\<lparr>text_content = ''1 wins!'', text_place = Centered, text_fill = ''black''\<rparr>]\<rparr>)"
proof -
  have none: "canvas (new_ChessGame [] :: (unit, call list) ChessGame) = None"
    by (simp add: new_ChessGame_def)
  have some: "canvas mounted = Some canvas800"
    by (simp add: mounted_def)
  have one: "toString 1 = ''1''"
    by code_simp
  show ?thesis
    using none some one
      displayWinner_adds_text [of "new_ChessGame [] :: (unit, call list) ChessGame" 1 canvas800]
      displayWinner_adds_text [of mounted 1 canvas800]
    by (simp add: canvas800_def)
qed

text \<open>
  C8 as stated fails: on a mounted component the second call with the same player
  number changes the canvas again.
\<close>

theorem displayWinner_not_idempotent:
  "displayWinner 1 (displayWinner 1 mounted) \<noteq> displayWinner 1 mounted"
  by (simp add: displayWinner_def Let_def add_def center_def mounted_def canvas800_def)

section \<open>The two highlight layers of the Svelte board\<close>

text \<open>
  C5, as the code has it. A \<^verbatim>\<open>MovesFrom\<close> event sets the possible moves and sets the
  last turn to null, leaving the kings in check; a \<^verbatim>\<open>GameInfo\<close> event takes the last
  turn and the kings in check from the new value and sets the possible moves to null.
\<close>

theorem subscribers_reset_other_layer:
  "possibleMoves (MovesFrom_subscriber e h) = e
   \<and> lastTurn (MovesFrom_subscriber e h) = Null
   \<and> in_check_kings (MovesFrom_subscriber e h) = in_check_kings h
   \<and> lastTurn (GameInfo_subscriber v h) = last_turn v
   \<and> possibleMoves (GameInfo_subscriber v h) = Null
   \<and> in_check_kings (GameInfo_subscriber v h) = info_in_check_kings v"
  by (simp add: MovesFrom_subscriber_def GameInfo_subscriber_def)

text \<open>
  C5 as stated fails in both directions: showing the legal moves of a piece removes the
  last turn on display, and a game update with a new last turn removes the legal moves
  on display.
\<close>

theorem highlight_layers_not_independent:
  "lastTurn after_turn = Val ((4, 1), (4, 3))
   \<and> lastTurn (MovesFrom_subscriber (Val [(2, 2), (2, 3)]) after_turn) = Null
   \<and> possibleMoves previewing = Val [(2, 2), (2, 3)]
   \<and> possibleMoves
       (GameInfo_subscriber
          \<lparr>info_in_check_kings = Null, last_turn = Val ((4, 1), (4, 3))\<rparr> previewing) = Null"
  by (simp add: MovesFrom_subscriber_def GameInfo_subscriber_def after_turn_def previewing_def)

section \<open>Coordinates\<close>

text \<open>The modelled mapping gives the positions of the spec's scenario.\<close>

lemma toScreen_scenario:
  "toScreen geometry8 False (Fin 0) (Fin 0) = (Fin 0, Fin 0)
   \<and> toScreen geometry8 True (Fin 0) (Fin 0) = (Fin 700, Fin 700)"
  by (simp add: toScreen_def geometry8_def)

text \<open>
  C2. With a finite, non-zero tile size and a finite board size, mapping a logical
  coordinate to the screen and back gives the coordinate again, for both orientations.
  The two mappings read nothing but the tile size and the board size: on two states
  that agree on these four values they give the same results.
\<close>

theorem toLogical_toScreen:
  assumes "geo_tileWidth g = Fin tw" and "tw \<noteq> 0"
      and "geo_tileHeight g = Fin th" and "th \<noteq> 0"
      and "geo_width g = Fin bw" and "geo_height g = Fin bh"
  shows "toLogical g i (fst (toScreen g i (Fin x) (Fin y))) (snd (toScreen g i (Fin x) (Fin y)))
           = (Fin x, Fin y)
       \<and> (geo_tileWidth g' = geo_tileWidth g \<and> geo_tileHeight g' = geo_tileHeight g
          \<and> geo_width g' = geo_width g \<and> geo_height g' = geo_height g \<longrightarrow>
            toScreen g' i a b = toScreen g i a b \<and> toLogical g' i a b = toLogical g i a b)"
  using assms by (simp add: toScreen_def toLogical_def)

theorem toLogical_toScreen_witness:
  "toScreen geometry8 True (Fin 3) (Fin 4) = (Fin 400, Fin 300)
   \<and> toLogical geometry8 True (fst (toScreen geometry8 True (Fin 3) (Fin 4)))
       (snd (toScreen geometry8 True (Fin 3) (Fin 4))) = (Fin 3, Fin 4)
   \<and> toScreen (geometry8\<lparr>geo_width := Fin 8\<rparr>) False (Fin 3) (Fin 4)
       = toScreen geometry8 False (Fin 3) (Fin 4)"
proof -
  have g: "geo_tileWidth geometry8 = Fin 100" "geo_tileHeight geometry8 = Fin 100"
      "geo_width geometry8 = Fin 8" "geo_height geometry8 = Fin 8"
    by (simp_all add: geometry8_def)
  have nz: "(100::rat) \<noteq> 0"
    by simp
  show ?thesis
    using toLogical_toScreen [OF g(1) nz g(2) nz g(3) g(4), of True 3 4
            "geometry8\<lparr>geo_width := Fin 8\<rparr>" "Fin 3" "Fin 4"]
          toLogical_toScreen [OF g(1) nz g(2) nz g(3) g(4), of False 3 4
            "geometry8\<lparr>geo_width := Fin 8\<rparr>" "Fin 3" "Fin 4"]
    by (simp add: toScreen_def geometry8_def)
qed

section \<open>Deleting a piece\<close>

text \<open>
  C7. \<^verbatim>\<open>deletePiece\<close> returns a state for every piece. When the piece's id is not in
  the handler's piece map, that state is the one it started from. When the id is there,
  the entry is removed from the map and its visual object from the rendering surface.
\<close>

theorem deletePiece_absent_noop:
  "(PieceHandler_pieceMap (statics this) (piece_id piece) = None \<longrightarrow>
      deletePiece (E\<lparr>PieceHandler_deletePiece := PieceHandler_deletePiece_model\<rparr>) piece this
        = this)
   \<and> (PieceHandler_pieceMap (statics this) (piece_id piece) = Some g \<longrightarrow>
      PieceHandler_pieceMap
        (statics (deletePiece (E\<lparr>PieceHandler_deletePiece := PieceHandler_deletePiece_model\<rparr>)
           piece this))
        = (PieceHandler_pieceMap (statics this))(piece_id piece := None)
      \<and> g \<notin> set (PieceHandler_drawn
        (statics (deletePiece (E\<lparr>PieceHandler_deletePiece := PieceHandler_deletePiece_model\<rparr>)
           piece this))))"
  by (simp add: deletePiece_def PieceHandler_deletePiece_model_def)

theorem deletePiece_absent_noop_witness:
  "deletePiece (idle\<lparr>PieceHandler_deletePiece := PieceHandler_deletePiece_model\<rparr>)
      \<lparr>piece_id = ''ghost'', piece_location = (Fin 0, Fin 0)\<rparr> one_piece = one_piece
   \<and> PieceHandler_drawn
       (statics (deletePiece (idle\<lparr>PieceHandler_deletePiece := PieceHandler_deletePiece_model\<rparr>)
          \<lparr>piece_id = ''p1'', piece_location = (Fin 0, Fin 0)\<rparr> one_piece)) = []"
proof -
  have ghost: "PieceHandler_pieceMap (statics one_piece)
      (piece_id \<lparr>piece_id = ''ghost'', piece_location = (Fin 0, Fin 0)\<rparr>) = None"
    by (simp add: one_piece_def new_ChessGame_def)
  have p1: "PieceHandler_pieceMap (statics one_piece)
      (piece_id \<lparr>piece_id = ''p1'', piece_location = (Fin 0, Fin 0)\<rparr>) = Some 7"
    by (simp add: one_piece_def new_ChessGame_def)
  have drawn: "PieceHandler_drawn
       (statics (deletePiece (idle\<lparr>PieceHandler_deletePiece := PieceHandler_deletePiece_model\<rparr>)
          \<lparr>piece_id = ''p1'', piece_location = (Fin 0, Fin 0)\<rparr> one_piece)) = []"
    by (simp add: deletePiece_def PieceHandler_deletePiece_model_def one_piece_def
          new_ChessGame_def)
  show ?thesis
    using ghost p1 drawn
      deletePiece_absent_noop [of one_piece
        "\<lparr>piece_id = ''ghost'', piece_location = (Fin 0, Fin 0)\<rparr>" idle 7]
      deletePiece_absent_noop [of one_piece
        "\<lparr>piece_id = ''p1'', piece_location = (Fin 0, Fin 0)\<rparr>" idle 7]
    by simp
qed

end
